theory Spec2Isabelle
  imports Main "HOL-Library.Sublist"
begin

section \<open>Values exchanged with clients\<close>

text \<open>
  Request bodies arrive through \<^verbatim>\<open>express.json()\<close> and responses leave through
  \<^verbatim>\<open>res.json(...)\<close>. A JavaScript string is modelled by \<^typ>\<open>string\<close>, one list element
  per code unit, so that \<^const>\<open>length\<close> is the \<^verbatim>\<open>.length\<close> of the source. An object is
  the list of its properties in insertion order (the order in which it is serialised);
  \<^const>\<open>map_of\<close> reads a property and a missing property is \<^verbatim>\<open>undefined\<close>, modelled by
  \<^const>\<open>None\<close>. Numbers occur in the modelled handlers only as row identifiers and
  timestamps, so they are integers here.
\<close>

datatype json =
    JNull
  | JBool bool
  | JNum int
  | JStr string
  | JArr "json list"
  | JObj "(string \<times> json) list"

text \<open>
  What a handler leaves behind: the response it wrote (\<^verbatim>\<open>res.status(s).json(b)\<close>, with
  status 200 when \<^verbatim>\<open>res.json(b)\<close> is called alone), or a rejected promise when a store
  call throws outside any \<^verbatim>\<open>try\<close>.
\<close>

datatype prisma_error =
    P2002 \<comment> \<open>unique constraint failed\<close>
  | P2003 \<comment> \<open>foreign key constraint failed\<close>
  | P2025 \<comment> \<open>record to update not found\<close>

datatype outcome =
    Response nat json
  | Rejected prisma_error

section \<open>Schema validation (utils/zod.ts and the schemas of routes/auth.ts)\<close>

text \<open>
  The schema library is not part of the repository. Its checks are modelled as far as the
  four schemas of \<^verbatim>\<open>routes/auth.ts\<close> use them; the e-mail grammar and the wording of the
  issue messages are parameters (\<open>zod_email\<close>, \<open>zod_msg\<close>).
\<close>

datatype zod_check =
    Expect_object
  | Expect_string
  | Min_length nat
  | Email_format

record zod_issue =
  path :: "string list"
  message :: string

record libs =
  zod_email :: "string \<Rightarrow> bool"
  zod_msg :: "zod_check \<Rightarrow> json option \<Rightarrow> string"
  bcrypt_hash :: "string \<Rightarrow> string \<Rightarrow> string"
  bcrypt_compare :: "string \<Rightarrow> string \<Rightarrow> bool"
  jws_encode :: "json \<times> string \<Rightarrow> string"
  jws_decode :: "string \<Rightarrow> (json \<times> string) option"
  hmac :: "string \<Rightarrow> json \<Rightarrow> string"

definition issue :: "libs \<Rightarrow> string list \<Rightarrow> zod_check \<Rightarrow> json option \<Rightarrow> zod_issue" where
  "issue L p c v = \<lparr>path = p, message = zod_msg L c v\<rparr>"

text \<open>\<^verbatim>\<open>z.string().min(n)\<close> on the property \<open>k\<close>.\<close>

definition z_string_min :: "libs \<Rightarrow> nat \<Rightarrow> string \<Rightarrow> json option \<Rightarrow> zod_issue list + string" where
  "z_string_min L n k v =
     (case v of
        Some (JStr s) \<Rightarrow>
          if length s < n then Inl [issue L [k] (Min_length n) v] else Inr s
      | _ \<Rightarrow> Inl [issue L [k] Expect_string v])"

text \<open>\<^verbatim>\<open>z.email()\<close> on the property \<open>k\<close>.\<close>

definition z_email :: "libs \<Rightarrow> string \<Rightarrow> json option \<Rightarrow> zod_issue list + string" where
  "z_email L k v =
     (case v of
        Some (JStr s) \<Rightarrow>
          if zod_email L s then Inr s else Inl [issue L [k] Email_format v]
      | _ \<Rightarrow> Inl [issue L [k] Expect_string v])"

text \<open>\<^verbatim>\<open>z.string().optional()\<close> on the property \<open>k\<close>.\<close>

definition z_string_optional :: "libs \<Rightarrow> string \<Rightarrow> json option \<Rightarrow> zod_issue list + string option" where
  "z_string_optional L k v =
     (case v of
        None \<Rightarrow> Inr None
      | Some (JStr s) \<Rightarrow> Inr (Some s)
      | _ \<Rightarrow> Inl [issue L [k] Expect_string v])"

definition issues_of :: "zod_issue list + 'a \<Rightarrow> zod_issue list" where
  "issues_of r = (case r of Inl is \<Rightarrow> is | Inr _ \<Rightarrow> [])"

text \<open>
  \<^verbatim>\<open>z.object({...}).safeParse(input)\<close>: anything but an object is one issue with the empty
  path; otherwise every property of the schema is checked, in the order of the schema,
  and all issues are collected.
\<close>

definition LoginSchema :: "libs \<Rightarrow> json option \<Rightarrow> zod_issue list + (string \<times> string)" where
  "LoginSchema L b =
     (case b of
        Some (JObj ps) \<Rightarrow>
          (let e = z_email L ''email'' (map_of ps ''email'');
               p = z_string_min L 6 ''password'' (map_of ps ''password'')
           in case (e, p) of
                (Inr email, Inr password) \<Rightarrow> Inr (email, password)
              | _ \<Rightarrow> Inl (issues_of e @ issues_of p))
      | _ \<Rightarrow> Inl [issue L [] Expect_object b])"

text \<open>
  \<^verbatim>\<open>zodToFieldErrors\<close>: the loop over \<^verbatim>\<open>err.issues\<close>. The key is \<^verbatim>\<open>String(issue.path[0])\<close>
  for a non-empty path; a key that is the empty string is falsy and its message goes to
  \<^verbatim>\<open>formErrors\<close> as well.
\<close>

fun push_field :: "string \<Rightarrow> string \<Rightarrow> (string \<times> string list) list \<Rightarrow> (string \<times> string list) list" where
  "push_field k m [] = [(k, [m])]"
| "push_field k m ((k', ms) # fs) =
     (if k' = k then (k', ms @ [m]) # fs else (k', ms) # push_field k m fs)"

definition issue_key :: "zod_issue \<Rightarrow> string option" where
  "issue_key i = (case path i of [] \<Rightarrow> None | k # _ \<Rightarrow> Some k)"

fun collect_issues ::
  "zod_issue list \<Rightarrow> string list \<times> (string \<times> string list) list
     \<Rightarrow> string list \<times> (string \<times> string list) list" where
  "collect_issues [] acc = acc"
| "collect_issues (i # is) (formErrors, fieldErrors) =
     (case issue_key i of
        Some (c # cs) \<Rightarrow> collect_issues is (formErrors, push_field (c # cs) (message i) fieldErrors)
      | _ \<Rightarrow> collect_issues is (formErrors @ [message i], fieldErrors))"

definition zodToFieldErrors :: "zod_issue list \<Rightarrow> json" where
  "zodToFieldErrors err =
     (case collect_issues err ([], []) of
        (formErrors, fieldErrors) \<Rightarrow>
          JObj [(''message'', JStr ''Validation failed''),
                (''formErrors'', JArr (map JStr formErrors)),
                (''fieldErrors'', JObj (map (\<lambda>(k, ms). (k, JArr (map JStr ms))) fieldErrors))])"

definition RegisterSchema ::
  "libs \<Rightarrow> json option \<Rightarrow> zod_issue list + (string \<times> string \<times> string option)" where
  "RegisterSchema L b =
     (case b of
        Some (JObj ps) \<Rightarrow>
          (let e = z_email L ''email'' (map_of ps ''email'');
               p = z_string_min L 6 ''password'' (map_of ps ''password'');
               n = z_string_optional L ''name'' (map_of ps ''name'')
           in case (e, p, n) of
                (Inr email, Inr password, Inr name) \<Rightarrow> Inr (email, password, name)
              | _ \<Rightarrow> Inl (issues_of e @ issues_of p @ issues_of n))
      | _ \<Rightarrow> Inl [issue L [] Expect_object b])"

definition ForgotSchema :: "libs \<Rightarrow> json option \<Rightarrow> zod_issue list + string" where
  "ForgotSchema L b =
     (case b of
        Some (JObj ps) \<Rightarrow> z_email L ''email'' (map_of ps ''email'')
      | _ \<Rightarrow> Inl [issue L [] Expect_object b])"

definition ResetSchema :: "libs \<Rightarrow> json option \<Rightarrow> zod_issue list + (string \<times> string)" where
  "ResetSchema L b =
     (case b of
        Some (JObj ps) \<Rightarrow>
          (let t = z_string_min L 10 ''token'' (map_of ps ''token'');
               p = z_string_min L 6 ''newPassword'' (map_of ps ''newPassword'')
           in case (t, p) of
                (Inr token, Inr newPassword) \<Rightarrow> Inr (token, newPassword)
              | _ \<Rightarrow> Inl (issues_of t @ issues_of p))
      | _ \<Rightarrow> Inl [issue L [] Expect_object b])"

section \<open>The relational store (prisma/migrations)\<close>

text \<open>
  The tables \<^verbatim>\<open>User\<close> and \<^verbatim>\<open>PasswordReset\<close> of the migration, as lists of rows in
  insertion order, each with the sequence behind its \<^verbatim>\<open>SERIAL\<close> key. The store-managed
  columns \<^verbatim>\<open>createdAt\<close> and \<^verbatim>\<open>updatedAt\<close> are read by no handler of \<^verbatim>\<open>routes/auth.ts\<close>
  and are left out. \<^verbatim>\<open>expiresAt\<close> is a nullable instant, in seconds.
\<close>

record user_row =
  user_id :: int
  user_email :: string
  user_password :: string
  user_name :: "string option"

record passwordReset_row =
  pr_id :: int
  pr_token :: string
  pr_userId :: int
  pr_expiresAt :: "int option"
  pr_used :: bool

record db =
  users :: "user_row list"
  user_seq :: int
  passwordResets :: "passwordReset_row list"
  passwordReset_seq :: int

text \<open>\<^verbatim>\<open>prisma.user.findUnique({ where: { email } })\<close>\<close>

definition user_findUnique_email :: "db \<Rightarrow> string \<Rightarrow> user_row option" where
  "user_findUnique_email d e = find (\<lambda>u. user_email u = e) (users d)"

text \<open>
  \<^verbatim>\<open>prisma.user.create({ data: { email, password, name } })\<close>. The key is drawn from the
  sequence before the unique index \<^verbatim>\<open>User_email_key\<close> is checked, so a refused insert
  still advances the sequence; no row is written then.
\<close>

definition user_create ::
  "db \<Rightarrow> string \<Rightarrow> string \<Rightarrow> string option \<Rightarrow> db \<times> (prisma_error + user_row)" where
  "user_create d e h n =
     (let i = user_seq d;
          d1 = d\<lparr>user_seq := i + 1\<rparr>;
          u = \<lparr>user_id = i, user_email = e, user_password = h, user_name = n\<rparr>
      in if \<exists>x \<in> set (users d). user_email x = e then (d1, Inl P2002)
         else (d1\<lparr>users := users d @ [u]\<rparr>, Inr u))"

text \<open>
  \<^verbatim>\<open>prisma.user.update({ where: { id }, data: { password } })\<close>: the write itself, and
  the call, which throws when no row has the key.
\<close>

definition set_password :: "int \<Rightarrow> string \<Rightarrow> db \<Rightarrow> db" where
  "set_password i h d =
     d\<lparr>users := map (\<lambda>x. if user_id x = i then x\<lparr>user_password := h\<rparr> else x) (users d)\<rparr>"

definition user_update_password :: "db \<Rightarrow> int \<Rightarrow> string \<Rightarrow> prisma_error + db" where
  "user_update_password d i h =
     (if \<exists>x \<in> set (users d). user_id x = i then Inr (set_password i h d) else Inl P2025)"

text \<open>\<^verbatim>\<open>prisma.passwordReset.findUnique({ where: { token } })\<close>\<close>

definition passwordReset_findUnique_token :: "db \<Rightarrow> string \<Rightarrow> passwordReset_row option" where
  "passwordReset_findUnique_token d t = find (\<lambda>r. pr_token r = t) (passwordResets d)"

text \<open>
  \<^verbatim>\<open>prisma.passwordReset.create({ data: { token, userId } })\<close>: \<^verbatim>\<open>expiresAt\<close> is null and
  \<^verbatim>\<open>used\<close> takes its default \<^verbatim>\<open>false\<close>. The unique index \<^verbatim>\<open>PasswordReset_token_key\<close>
  and the foreign key \<^verbatim>\<open>PasswordReset_userId_fkey\<close> can refuse the insert.
\<close>

definition passwordReset_create ::
  "db \<Rightarrow> string \<Rightarrow> int \<Rightarrow> db \<times> (prisma_error + passwordReset_row)" where
  "passwordReset_create d t uid =
     (let i = passwordReset_seq d;
          d1 = d\<lparr>passwordReset_seq := i + 1\<rparr>;
          r = \<lparr>pr_id = i, pr_token = t, pr_userId = uid, pr_expiresAt = None, pr_used = False\<rparr>
      in if \<exists>x \<in> set (passwordResets d). pr_token x = t then (d1, Inl P2002)
         else if \<not> (\<exists>x \<in> set (users d). user_id x = uid) then (d1, Inl P2003)
         else (d1\<lparr>passwordResets := passwordResets d @ [r]\<rparr>, Inr r))"

text \<open>\<^verbatim>\<open>prisma.passwordReset.update({ where: { id }, data: { used: true } })\<close>\<close>

definition mark_used :: "int \<Rightarrow> db \<Rightarrow> db" where
  "mark_used i d =
     d\<lparr>passwordResets :=
         map (\<lambda>x. if pr_id x = i then x\<lparr>pr_used := True\<rparr> else x) (passwordResets d)\<rparr>"

definition passwordReset_update_used :: "db \<Rightarrow> int \<Rightarrow> prisma_error + db" where
  "passwordReset_update_used d i =
     (if \<exists>x \<in> set (passwordResets d). pr_id x = i then Inr (mark_used i d) else Inl P2025)"

section \<open>Session credentials (utils/jwt.ts)\<close>

text \<open>
  \<^verbatim>\<open>jwt.sign\<close> and \<^verbatim>\<open>jwt.verify\<close> belong to the token library. Their wire format is a
  parameter: \<open>jws_encode\<close> joins the claims and the signature into the token string,
  \<open>jws_decode\<close> splits a well-formed token again, and \<open>hmac\<close> is the keyed signature of
  the claims. What the library does around them is written out: \<^verbatim>\<open>sign\<close> stamps \<^verbatim>\<open>iat\<close>
  and, with \<^verbatim>\<open>expiresIn\<close>, \<^verbatim>\<open>exp\<close>; \<^verbatim>\<open>verify\<close> checks the form, then the signature, then
  \<^verbatim>\<open>nbf\<close> and \<^verbatim>\<open>exp\<close> against the clock, and returns the decoded claims. Time is in
  seconds. The payloads signed by the repository carry no \<^verbatim>\<open>iat\<close> of their own, so the
  stamp is the clock's.
\<close>

datatype jwt_error = JsonWebTokenError | NotBeforeError | TokenExpiredError

fun set_prop :: "string \<Rightarrow> json \<Rightarrow> (string \<times> json) list \<Rightarrow> (string \<times> json) list" where
  "set_prop k v [] = [(k, v)]"
| "set_prop k v ((k', v') # ps) =
     (if k' = k then (k, v) # ps else (k', v') # set_prop k v ps)"

definition jwt_sign :: "libs \<Rightarrow> (string \<times> json) list \<Rightarrow> string \<Rightarrow> int option \<Rightarrow> int \<Rightarrow> string" where
  "jwt_sign L ps secret expiresIn now =
     (let ps1 = set_prop ''iat'' (JNum now) ps;
          ps2 = (case expiresIn of None \<Rightarrow> ps1 | Some ttl \<Rightarrow> set_prop ''exp'' (JNum (now + ttl)) ps1)
      in jws_encode L (JObj ps2, hmac L secret (JObj ps2)))"

definition jwt_verify :: "libs \<Rightarrow> string \<Rightarrow> string \<Rightarrow> int \<Rightarrow> jwt_error + json" where
  "jwt_verify L token secret now =
     (case jws_decode L token of
        None \<Rightarrow> Inl JsonWebTokenError
      | Some (claims, sig) \<Rightarrow>
          if sig \<noteq> hmac L secret claims then Inl JsonWebTokenError
          else (case claims of
                  JObj ps \<Rightarrow>
                    (case map_of ps ''nbf'' of
                       Some (JNum n) \<Rightarrow> if now < n then Inl NotBeforeError else
                         (case map_of ps ''exp'' of
                            Some (JNum e) \<Rightarrow> if e \<le> now then Inl TokenExpiredError else Inr claims
                          | Some _ \<Rightarrow> Inl JsonWebTokenError
                          | None \<Rightarrow> Inr claims)
                     | Some _ \<Rightarrow> Inl JsonWebTokenError
                     | None \<Rightarrow>
                         (case map_of ps ''exp'' of
                            Some (JNum e) \<Rightarrow> if e \<le> now then Inl TokenExpiredError else Inr claims
                          | Some _ \<Rightarrow> Inl JsonWebTokenError
                          | None \<Rightarrow> Inr claims))
                | _ \<Rightarrow> Inr claims))"

text \<open>\<^verbatim>\<open>type JwtPayload = { userId: number; email: string }\<close>\<close>

record JwtPayload =
  userId :: int
  email :: string

definition payload_props :: "JwtPayload \<Rightarrow> (string \<times> json) list" where
  "payload_props p = [(''userId'', JNum (userId p)), (''email'', JStr (email p))]"

text \<open>
  \<^verbatim>\<open>jwt.SignOptions\<close>, as far as the repository sets it: \<^verbatim>\<open>expiresIn\<close>, in seconds.
  \<^verbatim>\<open>{ expiresIn: '7d', ...opts }\<close> keeps the seven days unless \<open>opts\<close> carries its own value.
\<close>

record SignOptions =
  expiresIn :: "int option"

definition seven_days :: int where
  "seven_days = 7 * 24 * 60 * 60"

definition signJwt :: "libs \<Rightarrow> string \<Rightarrow> int \<Rightarrow> JwtPayload \<Rightarrow> SignOptions option \<Rightarrow> string" where
  "signJwt L SECRET now p opts =
     jwt_sign L (payload_props p) SECRET
       (case opts of
          None \<Rightarrow> Some seven_days
        | Some os \<Rightarrow> (case expiresIn os of None \<Rightarrow> Some seven_days | Some ttl \<Rightarrow> Some ttl))
       now"

definition verifyJwt :: "libs \<Rightarrow> string \<Rightarrow> int \<Rightarrow> string \<Rightarrow> jwt_error + json" where
  "verifyJwt L SECRET now token = jwt_verify L token SECRET now"



section \<open>The request gate (middleware/auth.ts)\<close>

record request =
  req_authorization :: "string option"
  req_body :: "json option"
  req_user :: "json option"

text \<open>
  \<^verbatim>\<open>auth(req, res, next)\<close>: either the response it writes itself, or the request handed on
  by \<^verbatim>\<open>next()\<close>, with \<^verbatim>\<open>req.user\<close> set.
\<close>

definition auth :: "libs \<Rightarrow> string \<Rightarrow> int \<Rightarrow> request \<Rightarrow> outcome + request" where
  "auth L SECRET now req =
     (let hdr = req_authorization req
      in if (case hdr of None \<Rightarrow> True | Some h \<Rightarrow> \<not> prefix ''Bearer '' h)
         then Inl (Response 401 (JObj [(''error'', JStr ''No token'')]))
         else (case verifyJwt L SECRET now (drop 7 (the hdr)) of
                 Inr claims \<Rightarrow> Inr (req\<lparr>req_user := Some claims\<rparr>)
               | Inl _ \<Rightarrow> Inl (Response 401 (JObj [(''error'', JStr ''Invalid token'')]))))"

text \<open>
  A protected route, \<^verbatim>\<open>r.post('/', auth, handler)\<close> and its siblings in \<^verbatim>\<open>routes/iklan.ts\<close>:
  the handler runs on what the gate hands on.
\<close>

definition protected ::
  "(request \<Rightarrow> outcome + request) \<Rightarrow> (request \<Rightarrow> 's \<Rightarrow> 's \<times> outcome) \<Rightarrow> request \<Rightarrow> 's \<Rightarrow> 's \<times> outcome" where
  "protected gate handler req d =
     (case gate req of
        Inl res \<Rightarrow> (d, res)
      | Inr req' \<Rightarrow> handler req' d)"

section \<open>The auth routes (routes/auth.ts)\<close>

text \<open>
  Each handler takes the store and the parsed body and returns the store and what it
  answered. What a handler draws from its surroundings is an argument: \<open>salt\<close> is the salt
  \<^verbatim>\<open>bcrypt.hash(_, 10)\<close> generates, \<open>rnd\<close> the value of
  \<^verbatim>\<open>crypto.randomBytes(32).toString('hex')\<close>, \<open>now\<close> the clock.
\<close>

definition error_body :: "string \<Rightarrow> json" where
  "error_body m = JObj [(''error'', JStr m)]"

definition message_body :: "string \<Rightarrow> json" where
  "message_body m = JObj [(''message'', JStr m)]"

text \<open>\<^verbatim>\<open>r.post('/register', ...)\<close>\<close>

definition register :: "libs \<Rightarrow> string \<Rightarrow> db \<Rightarrow> json option \<Rightarrow> db \<times> outcome" where
  "register L salt d b =
     (case RegisterSchema L b of
        Inl err \<Rightarrow> (d, Response 400 (zodToFieldErrors err))
      | Inr (em, pw, nm) \<Rightarrow>
          (let hashed = bcrypt_hash L salt pw
           in case user_create d em hashed nm of
                (d', Inr u) \<Rightarrow>
                  (d', Response 201 (JObj [(''id'', JNum (user_id u)), (''email'', JStr (user_email u))]))
              | (d', Inl _) \<Rightarrow> (d', Response 409 (error_body ''Email exists''))))"

text \<open>\<^verbatim>\<open>r.post('/login', ...)\<close>\<close>

definition login :: "libs \<Rightarrow> string \<Rightarrow> int \<Rightarrow> db \<Rightarrow> json option \<Rightarrow> db \<times> outcome" where
  "login L SECRET now d b =
     (case LoginSchema L b of
        Inl err \<Rightarrow> (d, Response 400 (zodToFieldErrors err))
      | Inr (em, pw) \<Rightarrow>
          (let u = user_findUnique_email d em
           in if u = None \<or> \<not> bcrypt_compare L pw (user_password (the u))
              then (d, Response 401 (error_body ''Invalid credentials''))
              else (let token = signJwt L SECRET now
                                  \<lparr>userId = user_id (the u), email = user_email (the u)\<rparr> None
                    in (d, Response 200 (JObj [(''token'', JStr token)])))))"

text \<open>
  \<^verbatim>\<open>const FE = process.env.FRONTEND_URL?.replace(/\/$/, '')\<close> and \<^verbatim>\<open>buildResetLink\<close>; an
  empty \<open>FE\<close> is falsy.
\<close>

definition trim_trailing_slash :: "string \<Rightarrow> string" where
  "trim_trailing_slash s = (if s \<noteq> [] \<and> last s = CHR ''/'' then butlast s else s)"

definition buildResetLink :: "string option \<Rightarrow> string \<Rightarrow> string option" where
  "buildResetLink FE token =
     (case FE of
        None \<Rightarrow> None
      | Some fe \<Rightarrow> if fe = [] then None else Some (fe @ ''/reset-password?token='' @ token))"

text \<open>\<^verbatim>\<open>r.post('/forgot-password', ...)\<close>\<close>

definition forgot_password :: "libs \<Rightarrow> string option \<Rightarrow> string \<Rightarrow> db \<Rightarrow> json option \<Rightarrow> db \<times> outcome" where
  "forgot_password L FE rnd d b =
     (case ForgotSchema L b of
        Inl err \<Rightarrow> (d, Response 400 (zodToFieldErrors err))
      | Inr em \<Rightarrow>
          (case user_findUnique_email d em of
             None \<Rightarrow> (d, Response 200 (message_body ''If the email exists, a reset link will be sent''))
           | Some user \<Rightarrow>
               (let token = rnd
                in case passwordReset_create d token (user_id user) of
                     (d', Inl e) \<Rightarrow> (d', Rejected e)
                   | (d', Inr _) \<Rightarrow>
                       (case buildResetLink FE token of
                          Some resetLink \<Rightarrow> (d', Response 200 (message_body ''Reset link generated''))
                        | None \<Rightarrow>
                            (d', Response 200
                               (JObj [(''message'', JStr ''Reset link generated (testing mode)''),
                                      (''token'', JStr token),
                                      (''hint'', JStr ''POST to /auth/reset-password with { token, newPassword }'')]))))))"

text \<open>\<^verbatim>\<open>r.post('/reset-password', ...)\<close>\<close>

definition reset_password :: "libs \<Rightarrow> string \<Rightarrow> db \<Rightarrow> json option \<Rightarrow> db \<times> outcome" where
  "reset_password L salt d b =
     (case ResetSchema L b of
        Inl err \<Rightarrow> (d, Response 400 (zodToFieldErrors err))
      | Inr (token, newPassword) \<Rightarrow>
          (let record = passwordReset_findUnique_token d token
           in if record = None \<or> pr_used (the record)
              then (d, Response 400 (error_body ''Invalid or already used token''))
              else (let hashed = bcrypt_hash L salt newPassword
                    in case user_update_password d (pr_userId (the record)) hashed of
                         Inl e \<Rightarrow> (d, Rejected e)
                       | Inr d1 \<Rightarrow>
                           (case passwordReset_update_used d1 (pr_id (the record)) of
                              Inl e \<Rightarrow> (d1, Rejected e)
                            | Inr d2 \<Rightarrow>
                                (d2, Response 200
                                       (message_body ''Password updated successfully (testing mode)''))))))"

text \<open>
  The same handler, one store call at a time. Every \<^verbatim>\<open>await\<close> on the store is a point
  where the handler is suspended and the store is visible to other requests, and where
  a failure of the process leaves the store as it is. \<open>reset_pc\<close> is where the handler
  stands: before \<^verbatim>\<open>passwordReset.findUnique\<close>, before \<^verbatim>\<open>user.update\<close>, before
  \<^verbatim>\<open>passwordReset.update\<close>, or finished.
\<close>

datatype reset_pc =
    AwaitFind string string
  | AwaitUserUpdate passwordReset_row string
  | AwaitMarkUsed passwordReset_row
  | Finished outcome

definition reset_start :: "libs \<Rightarrow> json option \<Rightarrow> reset_pc" where
  "reset_start L b =
     (case ResetSchema L b of
        Inl err \<Rightarrow> Finished (Response 400 (zodToFieldErrors err))
      | Inr (token, newPassword) \<Rightarrow> AwaitFind token newPassword)"

fun reset_step :: "libs \<Rightarrow> string \<Rightarrow> db \<times> reset_pc \<Rightarrow> db \<times> reset_pc" where
  "reset_step L salt (d, AwaitFind token newPassword) =
     (let record = passwordReset_findUnique_token d token
      in if record = None \<or> pr_used (the record)
         then (d, Finished (Response 400 (error_body ''Invalid or already used token'')))
         else (d, AwaitUserUpdate (the record) newPassword))"
| "reset_step L salt (d, AwaitUserUpdate r newPassword) =
     (case user_update_password d (pr_userId r) (bcrypt_hash L salt newPassword) of
        Inl e \<Rightarrow> (d, Finished (Rejected e))
      | Inr d1 \<Rightarrow> (d1, AwaitMarkUsed r))"
| "reset_step L salt (d, AwaitMarkUsed r) =
     (case passwordReset_update_used d (pr_id r) of
        Inl e \<Rightarrow> (d, Finished (Rejected e))
      | Inr d2 \<Rightarrow>
          (d2, Finished (Response 200 (message_body ''Password updated successfully (testing mode)''))))"
| "reset_step L salt (d, Finished out) = (d, Finished out)"

text \<open>
  Several reset requests in flight on one store: \<open>ps\<close> holds, for each, its salt and
  where it stands; the schedule names the request that makes the next store call.
\<close>

fun run_schedule ::
  "libs \<Rightarrow> nat list \<Rightarrow> db \<times> (string \<times> reset_pc) list \<Rightarrow> db \<times> (string \<times> reset_pc) list" where
  "run_schedule L [] s = s"
| "run_schedule L (i # is) (d, ps) =
     (if i < length ps
      then (case reset_step L (fst (ps ! i)) (d, snd (ps ! i)) of
              (d', pc') \<Rightarrow> run_schedule L is (d', ps[i := (fst (ps ! i), pc')]))
      else run_schedule L is (d, ps))"

section \<open>Process start (server.ts and the module bodies it imports)\<close>

record process_env =
  JWT_SECRET :: "string option"
  FRONTEND_URL :: "string option"

text \<open>
  The body of \<^verbatim>\<open>utils/jwt.ts\<close>: \<^verbatim>\<open>if (!SECRET) throw new Error('JWT_SECRET missing')\<close>.
  \<^const>\<open>Inl\<close> is the thrown error's message.
\<close>

definition load_jwt :: "process_env \<Rightarrow> string + string" where
  "load_jwt env =
     (case JWT_SECRET env of
        None \<Rightarrow> Inl ''JWT_SECRET missing''
      | Some s \<Rightarrow> if s = [] then Inl ''JWT_SECRET missing'' else Inr s)"

definition load_FE :: "process_env \<Rightarrow> string option" where
  "load_FE env = map_option trim_trailing_slash (FRONTEND_URL env)"

record server =
  srv_SECRET :: string
  srv_FE :: "string option"

text \<open>
  \<^verbatim>\<open>server.ts\<close>: its imports are evaluated first, \<^verbatim>\<open>routes/auth.ts\<close> and with it
  \<^verbatim>\<open>utils/jwt.ts\<close> among them; only then does the body reach \<^verbatim>\<open>app.listen\<close>. A module
  body that throws ends the process.
\<close>

definition startup :: "process_env \<Rightarrow> string + server" where
  "startup env =
     (case load_jwt env of
        Inl e \<Rightarrow> Inl e
      | Inr secret \<Rightarrow> Inr \<lparr>srv_SECRET = secret, srv_FE = load_FE env\<rparr>)"

text \<open>The requests of \<^verbatim>\<open>app.use('/auth', authRoutes)\<close>, each with what its handler draws.\<close>

datatype api_call =
    PostRegister "json option"
  | PostLogin "json option"
  | PostForgotPassword "json option"
  | PostResetPassword "json option"

record ambient =
  amb_now :: int
  amb_salt :: string
  amb_rnd :: string

fun handle :: "libs \<Rightarrow> server \<Rightarrow> ambient \<times> api_call \<Rightarrow> db \<Rightarrow> db \<times> outcome" where
  "handle L srv (a, PostRegister b) d = register L (amb_salt a) d b"
| "handle L srv (a, PostLogin b) d = login L (srv_SECRET srv) (amb_now a) d b"
| "handle L srv (a, PostForgotPassword b) d = forgot_password L (srv_FE srv) (amb_rnd a) d b"
| "handle L srv (a, PostResetPassword b) d = reset_password L (amb_salt a) d b"

text \<open>A listening server answers the requests it receives, one after the other.\<close>

fun run_requests :: "('rq \<Rightarrow> 's \<Rightarrow> 's \<times> outcome) \<Rightarrow> 'rq list \<Rightarrow> 's \<Rightarrow> 's \<times> outcome list" where
  "run_requests h [] d = (d, [])"
| "run_requests h (rq # rqs) d =
     (case h rq d of
        (d1, out) \<Rightarrow> (case run_requests h rqs d1 of (d2, outs) \<Rightarrow> (d2, out # outs)))"

text \<open>The life of the process: requests are answered only once \<open>startup\<close> has returned.\<close>

definition serve ::
  "process_env \<Rightarrow> (server \<Rightarrow> 'rq \<Rightarrow> 's \<Rightarrow> 's \<times> outcome) \<Rightarrow> 'rq list \<Rightarrow> 's \<Rightarrow> string + ('s \<times> outcome list)" where
  "serve env h rqs d =
     (case startup env of
        Inl e \<Rightarrow> Inl e
      | Inr srv \<Rightarrow> Inr (run_requests (h srv) rqs d))"

section \<open>Concrete instances\<close>

text \<open>
  An instance of the library parameters and a small store, on which the handlers can
  be evaluated: the hash is the salt, a separator and the password; the signature is
  the key; the token codec knows one token.
\<close>

definition toy_claims :: json where
  "toy_claims = JObj [(''userId'', JNum 1), (''email'', JStr ''a@x.com''),
                      (''iat'', JNum 1000), (''exp'', JNum 605800)]"

definition toy_libs :: libs where
  "toy_libs =
     \<lparr>zod_email = (\<lambda>s. CHR ''@'' \<in> set s),
      zod_msg = (\<lambda>c v. ''invalid''),
      bcrypt_hash = (\<lambda>salt p. salt @ ''$'' @ p),
      bcrypt_compare = (\<lambda>p h. drop (length h - length p - 1) h = ''$'' @ p),
      jws_encode = (\<lambda>x. ''header.claims.signature''),
      jws_decode = (\<lambda>s. if s = ''header.claims.signature'' then Some (toy_claims, ''k1'') else None),
      hmac = (\<lambda>k c. k)\<rparr>"

definition toy_db :: db where
  "toy_db =
     \<lparr>users = [\<lparr>user_id = 1, user_email = ''a@x.com'', user_password = ''s0$secret1'',
                 user_name = None\<rparr>],
      user_seq = 2,
      passwordResets = [\<lparr>pr_id = 1, pr_token = ''0123456789abcdef'', pr_userId = 1,
                          pr_expiresAt = Some 500, pr_used = False\<rparr>],
      passwordReset_seq = 2\<rparr>"

text \<open>The small store after \<^verbatim>\<open>b@x.com\<close> has registered.\<close>

definition toy_db_b :: db where
  "toy_db_b =
     toy_db\<lparr>user_seq := 3,
            users := users toy_db @
              [\<lparr>user_id = 2, user_email = ''b@x.com'', user_password = ''s1$secret2'',
                user_name = None\<rparr>]\<rparr>"


definition toy_row :: passwordReset_row where
  "toy_row = \<lparr>pr_id = 1, pr_token = ''0123456789abcdef'', pr_userId = 1,
               pr_expiresAt = Some 500, pr_used = False\<rparr>"

definition credentials :: "string \<Rightarrow> string \<Rightarrow> json option" where
  "credentials e p = Some (JObj [(''email'', JStr e), (''password'', JStr p)])"

definition registration :: "string \<Rightarrow> string \<Rightarrow> json option" where
  "registration e p = Some (JObj [(''email'', JStr e), (''password'', JStr p)])"

definition email_only :: "string \<Rightarrow> json option" where
  "email_only e = Some (JObj [(''email'', JStr e)])"

definition reset_request :: "string \<Rightarrow> string \<Rightarrow> json option" where
  "reset_request t p = Some (JObj [(''token'', JStr t), (''newPassword'', JStr p)])"

definition bearer_request :: "string option \<Rightarrow> request" where
  "bearer_request h = \<lparr>req_authorization = h, req_body = None, req_user = None\<rparr>"

text \<open>A protected operation that answers with the claims the gate attached.\<close>

definition whoami :: "request \<Rightarrow> db \<Rightarrow> db \<times> outcome" where
  "whoami req d = (d, Response 200 (case req_user req of None \<Rightarrow> JNull | Some c \<Rightarrow> c))"

section \<open>Relations between stores\<close>

text \<open>The store with the \<^verbatim>\<open>expiresAt\<close> column rewritten, row by row.\<close>

definition with_expiry :: "(int \<Rightarrow> int option) \<Rightarrow> db \<Rightarrow> db" where
  "with_expiry f d =
     d\<lparr>passwordResets := map (\<lambda>r. r\<lparr>pr_expiresAt := f (pr_id r)\<rparr>) (passwordResets d)\<rparr>"


section \<open>Validation\<close>

lemma LoginSchema_short:
  assumes "map_of ps ''password'' = Some (JStr p)" and "length p < 6"
  shows "LoginSchema L (Some (JObj ps)) =
     Inl (issues_of (z_email L ''email'' (map_of ps ''email''))
          @ [issue L [''password''] (Min_length 6) (Some (JStr p))])"
  using assms by (simp add: LoginSchema_def z_string_min_def issues_of_def split: sum.splits)

lemma issues_of_z_email:
  "issues_of (z_email L k v) = [] \<or> (\<exists>c. issues_of (z_email L k v) = [issue L [k] c v])"
  by (auto simp: z_email_def issues_of_def split: option.splits json.splits)

lemma field_errors_password:
  assumes "is = [] \<or> (\<exists>c. is = [issue L [''email''] c v])"
  shows "zodToFieldErrors (is @ [issue L [''password''] c' v']) =
      JObj [(''message'', JStr ''Validation failed''),
            (''formErrors'', JArr []),
            (''fieldErrors'',
               JObj (map (\<lambda>i. (hd (path i), JArr [JStr (message i)]))
                         (is @ [issue L [''password''] c' v'])))]"
  using assms by (auto simp: zodToFieldErrors_def issue_key_def issue_def)

lemma toy_credentials_valid:
  "CHR ''@'' \<in> set e \<Longrightarrow> 6 \<le> length p \<Longrightarrow> LoginSchema toy_libs (credentials e p) = Inr (e, p)"
  by (simp add: LoginSchema_def credentials_def z_email_def z_string_min_def toy_libs_def)

section \<open>Login\<close>

text \<open>
  C4. A login request that passes validation gets the same answer, status 401 with the
  body \<^verbatim>\<open>{"error":"Invalid credentials"}\<close>, when no user has the e-mail as when the user
  exists and the stored hash does not verify the password.
\<close>

theorem login_failure_indistinguishable:
  assumes "LoginSchema L b1 = Inr (e1, p1)"
      and "LoginSchema L b2 = Inr (e2, p2)"
      and "user_findUnique_email d1 e1 = None"
      and "user_findUnique_email d2 e2 = Some u"
      and "\<not> bcrypt_compare L p2 (user_password u)"
  shows "snd (login L S n1 d1 b1) = snd (login L S n2 d2 b2)
       \<and> snd (login L S n1 d1 b1) = Response 401 (JObj [(''error'', JStr ''Invalid credentials'')])"
  using assms by (simp add: login_def error_body_def)

theorem login_failure_indistinguishable_witness:
  "LoginSchema toy_libs (credentials ''b@x.com'' ''secret1'') = Inr (''b@x.com'', ''secret1'')
   \<and> LoginSchema toy_libs (credentials ''a@x.com'' ''wrong-password'') = Inr (''a@x.com'', ''wrong-password'')
   \<and> user_findUnique_email toy_db ''b@x.com'' = None
   \<and> user_findUnique_email toy_db ''a@x.com'' = Some (hd (users toy_db))
   \<and> \<not> bcrypt_compare toy_libs ''wrong-password'' (user_password (hd (users toy_db)))
   \<and> snd (login toy_libs ''k1'' 1000 toy_db (credentials ''b@x.com'' ''secret1''))
       = snd (login toy_libs ''k1'' 1000 toy_db (credentials ''a@x.com'' ''wrong-password''))
   \<and> snd (login toy_libs ''k1'' 1000 toy_db (credentials ''b@x.com'' ''secret1''))
       = Response 401 (JObj [(''error'', JStr ''Invalid credentials'')])"
proof -
  have v1: "LoginSchema toy_libs (credentials ''b@x.com'' ''secret1'') = Inr (''b@x.com'', ''secret1'')"
    by (simp add: toy_credentials_valid)
  have v2: "LoginSchema toy_libs (credentials ''a@x.com'' ''wrong-password'')
              = Inr (''a@x.com'', ''wrong-password'')"
    by (simp add: toy_credentials_valid)
  have f1: "user_findUnique_email toy_db ''b@x.com'' = None"
    by (simp add: user_findUnique_email_def toy_db_def)
  have f2: "user_findUnique_email toy_db ''a@x.com'' = Some (hd (users toy_db))"
    by (simp add: user_findUnique_email_def toy_db_def)
  have c: "\<not> bcrypt_compare toy_libs ''wrong-password'' (user_password (hd (users toy_db)))"
    by (simp add: toy_libs_def toy_db_def)
  from login_failure_indistinguishable [OF v1 v2 f1 f2 c, of "''k1''" 1000 1000] v1 v2 f1 f2 c
  show ?thesis by blast
qed

text \<open>
  C10. A login request whose password is a string shorter than 6 is answered with status
  400 and the structured validation body, with an entry for \<^verbatim>\<open>password\<close> among the field
  errors, whatever the store holds; the store is not changed.
\<close>

theorem login_short_password_400:
  assumes "map_of ps ''password'' = Some (JStr p)" and "length p < 6"
  shows "\<exists>fs. login L S n d (Some (JObj ps)) =
           (d, Response 400 (JObj [(''message'', JStr ''Validation failed''),
                                   (''formErrors'', JArr []),
                                   (''fieldErrors'', JObj fs)]))
         \<and> map_of fs ''password'' = Some (JArr [JStr (zod_msg L (Min_length 6) (Some (JStr p)))])"
proof -
  let ?is = "issues_of (z_email L ''email'' (map_of ps ''email''))"
  let ?pw = "issue L [''password''] (Min_length 6) (Some (JStr p))"
  let ?fs = "map (\<lambda>i. (hd (path i), JArr [JStr (message i)])) (?is @ [?pw])"
  have shape: "?is = [] \<or> (\<exists>c. ?is = [issue L [''email''] c (map_of ps ''email'')])"
    by (rule issues_of_z_email)
  have "login L S n d (Some (JObj ps)) = (d, Response 400 (zodToFieldErrors (?is @ [?pw])))"
    using assms by (simp add: login_def LoginSchema_short)
  then have "login L S n d (Some (JObj ps)) =
           (d, Response 400 (JObj [(''message'', JStr ''Validation failed''),
                                   (''formErrors'', JArr []),
                                   (''fieldErrors'', JObj ?fs)]))"
    by (simp only: field_errors_password [OF shape])
  moreover have "map_of ?fs ''password''
                   = Some (JArr [JStr (zod_msg L (Min_length 6) (Some (JStr p)))])"
    using shape by (auto simp: issue_def)
  ultimately show ?thesis by blast
qed

theorem login_short_password_400_witness:
  "map_of [(''email'', JStr ''a@x.com''), (''password'', JStr ''abc'')] ''password'' = Some (JStr ''abc'')
   \<and> length ''abc'' < 6
   \<and> (\<exists>fs. login toy_libs ''k1'' 1000 toy_db (credentials ''a@x.com'' ''abc'') =
           (toy_db, Response 400 (JObj [(''message'', JStr ''Validation failed''),
                                        (''formErrors'', JArr []),
                                        (''fieldErrors'', JObj fs)]))
         \<and> map_of fs ''password''
             = Some (JArr [JStr (zod_msg toy_libs (Min_length 6) (Some (JStr ''abc'')))]))"
proof -
  have h1: "map_of [(''email'', JStr ''a@x.com''), (''password'', JStr ''abc'')] ''password''
              = Some (JStr ''abc'')"
    by simp
  have h2: "length ''abc'' < 6" by simp
  from login_short_password_400 [OF h1 h2, of toy_libs "''k1''" 1000 toy_db] h1 h2
  show ?thesis unfolding credentials_def by blast
qed

section \<open>Password reset\<close>

lemma reset_request_valid:
  "10 \<le> length t \<Longrightarrow> 6 \<le> length p \<Longrightarrow> ResetSchema L (reset_request t p) = Inr (t, p)"
  by (simp add: ResetSchema_def reset_request_def z_string_min_def)

lemma find_token_map:
  assumes "\<And>x. pr_token (f x) = pr_token x"
  shows "find (\<lambda>r. pr_token r = t) (map f rs) = map_option f (find (\<lambda>r. pr_token r = t) rs)"
  by (induction rs) (simp_all add: assms)

lemma find_in_set: "find P xs = Some x \<Longrightarrow> x \<in> set xs \<and> P x"
  by (induction xs) (auto split: if_splits)

lemma passwordResets_set_password: "passwordResets (set_password i h d) = passwordResets d"
  by (simp add: set_password_def)


lemma find_token_set_password:
  "passwordReset_findUnique_token (set_password i h d) t = passwordReset_findUnique_token d t"
  by (simp add: passwordReset_findUnique_token_def passwordResets_set_password)


lemma set_password_sets:
  assumes "u \<in> set (users (set_password i h d))" and "user_id u = i"
  shows "user_password u = h"
proof -
  let ?f = "\<lambda>x. if user_id x = i then x\<lparr>user_password := h\<rparr> else x"
  have "users (set_password i h d) = map ?f (users d)"
    by (simp add: set_password_def)
  with assms(1) have "u \<in> ?f ` set (users d)"
    by (simp only: set_map)
  then obtain x where x: "u = ?f x" by (rule imageE)
  show ?thesis
  proof (cases "user_id x = i")
    case True
    with x show ?thesis by simp
  next
    case False
    with x assms(2) show ?thesis by simp
  qed
qed

lemma set_password_keeps_ids:
  "(\<exists>u \<in> set (users (set_password i h d)). user_id u = j) = (\<exists>u \<in> set (users d). user_id u = j)"
proof -
  have "(\<exists>u \<in> set (map (\<lambda>x. if user_id x = i then x\<lparr>user_password := h\<rparr> else x) us). user_id u = j)
          = (\<exists>u \<in> set us. user_id u = j)" for us :: "user_row list"
    by (induction us) simp_all
  then show ?thesis by (simp add: set_password_def)
qed

text \<open>The handler on a token that is found and unused, and on one that is not.\<close>

lemma reset_password_accepts:
  assumes "ResetSchema L b = Inr (t, p)"
      and "passwordReset_findUnique_token d t = Some r"
      and "\<not> pr_used r"
      and "\<exists>u \<in> set (users d). user_id u = pr_userId r"
  shows "reset_password L salt d b =
           (mark_used (pr_id r) (set_password (pr_userId r) (bcrypt_hash L salt p) d),
            Response 200 (JObj [(''message'', JStr ''Password updated successfully (testing mode)'')]))"
proof -
  have "r \<in> set (passwordResets d)"
    using assms(2) by (auto simp: passwordReset_findUnique_token_def dest: find_in_set)
  then have "\<exists>x \<in> set (passwordResets d). pr_id x = pr_id r" by blast
  then show ?thesis
    using assms
    by (simp add: reset_password_def user_update_password_def passwordReset_update_used_def
        message_body_def passwordResets_set_password)
qed



lemma reset_password_400_iff:
  assumes "ResetSchema L b = Inr (t, p)"
  shows "snd (reset_password L salt d b)
           = Response 400 (JObj [(''error'', JStr ''Invalid or already used token'')])
         \<longleftrightarrow> (passwordReset_findUnique_token d t = None
               \<or> (\<exists>r. passwordReset_findUnique_token d t = Some r \<and> pr_used r))"
proof (cases "passwordReset_findUnique_token d t")
  case None
  then show ?thesis using assms by (simp add: reset_password_def error_body_def)
next
  case (Some r)
  then show ?thesis using assms
    by (simp add: reset_password_def error_body_def Let_def split: sum.splits)
qed

lemma find_token_with_expiry:
  "passwordReset_findUnique_token (with_expiry f d) t =
     map_option (\<lambda>r. r\<lparr>pr_expiresAt := f (pr_id r)\<rparr>) (passwordReset_findUnique_token d t)"
  unfolding passwordReset_findUnique_token_def with_expiry_def
  by (simp add: find_token_map)

lemma users_with_expiry: "users (with_expiry f d) = users d"
  by (simp add: with_expiry_def)

lemma set_password_with_expiry:
  "set_password i h (with_expiry f d) = with_expiry f (set_password i h d)"
  by (simp add: set_password_def with_expiry_def)

lemma mark_used_with_expiry:
  "mark_used i (with_expiry f d) = with_expiry f (mark_used i d)"
  by (simp add: mark_used_def with_expiry_def comp_def if_distrib cong: if_cong)

lemma pr_ids_with_expiry:
  "(\<exists>x \<in> set (passwordResets (with_expiry f d)). pr_id x = i)
     = (\<exists>x \<in> set (passwordResets d). pr_id x = i)"
proof -
  have "(\<exists>x \<in> set (map (\<lambda>r. r\<lparr>pr_expiresAt := f (pr_id r)\<rparr>) rs). pr_id x = i)
          = (\<exists>x \<in> set rs. pr_id x = i)" for rs :: "passwordReset_row list"
    by (induction rs) simp_all
  then show ?thesis by (simp add: with_expiry_def)
qed

lemma reset_password_with_expiry:
  "reset_password L salt (with_expiry f d) b =
     (with_expiry f (fst (reset_password L salt d b)), snd (reset_password L salt d b))"
proof (cases "ResetSchema L b")
  case (Inl err)
  then show ?thesis by (simp add: reset_password_def)
next
  case (Inr tp)
  obtain t p where tp: "tp = (t, p)" by (cases tp)
  show ?thesis
  proof (cases "passwordReset_findUnique_token d t")
    case None
    then show ?thesis
      using Inr tp by (simp add: reset_password_def find_token_with_expiry)
  next
    case (Some r)
    then show ?thesis
      using Inr tp
      by (simp add: reset_password_def find_token_with_expiry user_update_password_def
          passwordReset_update_used_def set_password_with_expiry mark_used_with_expiry
          pr_ids_with_expiry users_with_expiry passwordResets_set_password Let_def)
  qed
qed

text \<open>
  C7. Whether \<^verbatim>\<open>reset-password\<close> accepts a valid request depends on the row found for the
  token and on its \<^verbatim>\<open>used\<close> flag only: a row that is found and unused is accepted also
  when its \<^verbatim>\<open>expiresAt\<close> lies in the past; the refusal is exactly the case of no row or
  a used row; and rewriting the \<^verbatim>\<open>expiresAt\<close> column of the whole table changes neither
  the answer nor what is written.
\<close>

theorem reset_ignores_expiresAt:
  assumes "ResetSchema L b = Inr (t, p)"
  shows "(\<forall>r x now. passwordReset_findUnique_token d t = Some r \<and> \<not> pr_used r
             \<and> pr_expiresAt r = Some x \<and> x < now
             \<and> (\<exists>u \<in> set (users d). user_id u = pr_userId r)
           \<longrightarrow> snd (reset_password L salt d b)
                 = Response 200 (JObj [(''message'', JStr ''Password updated successfully (testing mode)'')]))
       \<and> (snd (reset_password L salt d b)
             = Response 400 (JObj [(''error'', JStr ''Invalid or already used token'')])
           \<longleftrightarrow> (passwordReset_findUnique_token d t = None
                \<or> (\<exists>r. passwordReset_findUnique_token d t = Some r \<and> pr_used r)))
       \<and> (\<forall>f. snd (reset_password L salt (with_expiry f d) b) = snd (reset_password L salt d b)
              \<and> fst (reset_password L salt (with_expiry f d) b)
                  = with_expiry f (fst (reset_password L salt d b)))"
proof (intro conjI allI impI)
  fix r x and now :: int
  assume "passwordReset_findUnique_token d t = Some r \<and> \<not> pr_used r
             \<and> pr_expiresAt r = Some x \<and> x < now
             \<and> (\<exists>u \<in> set (users d). user_id u = pr_userId r)"
  then show "snd (reset_password L salt d b)
                 = Response 200 (JObj [(''message'', JStr ''Password updated successfully (testing mode)'')])"
    using reset_password_accepts [OF assms, of d r salt] by simp
next
  show "snd (reset_password L salt d b)
             = Response 400 (JObj [(''error'', JStr ''Invalid or already used token'')])
           \<longleftrightarrow> (passwordReset_findUnique_token d t = None
                \<or> (\<exists>r. passwordReset_findUnique_token d t = Some r \<and> pr_used r))"
    by (rule reset_password_400_iff [OF assms])
next
  fix f
  show "snd (reset_password L salt (with_expiry f d) b) = snd (reset_password L salt d b)"
    by (simp add: reset_password_with_expiry)
  show "fst (reset_password L salt (with_expiry f d) b) = with_expiry f (fst (reset_password L salt d b))"
    by (simp add: reset_password_with_expiry)
qed

theorem reset_ignores_expiresAt_witness:
  "ResetSchema toy_libs (reset_request ''0123456789abcdef'' ''new-password'')
     = Inr (''0123456789abcdef'', ''new-password'')
   \<and> passwordReset_findUnique_token toy_db ''0123456789abcdef'' = Some (hd (passwordResets toy_db))
   \<and> \<not> pr_used (hd (passwordResets toy_db))
   \<and> pr_expiresAt (hd (passwordResets toy_db)) = Some 500 \<and> (500::int) < 1000
   \<and> (\<exists>u \<in> set (users toy_db). user_id u = pr_userId (hd (passwordResets toy_db)))
   \<and> snd (reset_password toy_libs ''s1'' toy_db (reset_request ''0123456789abcdef'' ''new-password''))
       = Response 200 (JObj [(''message'', JStr ''Password updated successfully (testing mode)'')])"
proof -
  have v: "ResetSchema toy_libs (reset_request ''0123456789abcdef'' ''new-password'')
             = Inr (''0123456789abcdef'', ''new-password'')"
    by (simp add: reset_request_valid)
  have h: "passwordReset_findUnique_token toy_db ''0123456789abcdef'' = Some (hd (passwordResets toy_db))
           \<and> \<not> pr_used (hd (passwordResets toy_db))
           \<and> pr_expiresAt (hd (passwordResets toy_db)) = Some 500 \<and> (500::int) < 1000
           \<and> (\<exists>u \<in> set (users toy_db). user_id u = pr_userId (hd (passwordResets toy_db)))"
    by (simp add: passwordReset_findUnique_token_def toy_db_def)
  from reset_ignores_expiresAt [OF v, of toy_db "''s1''"] h v
  show ?thesis by blast
qed

section \<open>Registration\<close>

lemma toy_registration_valid:
  "CHR ''@'' \<in> set e \<Longrightarrow> 6 \<le> length p \<Longrightarrow>
     RegisterSchema toy_libs (registration e p) = Inr (e, p, None)"
  by (simp add: RegisterSchema_def registration_def z_email_def z_string_min_def
      z_string_optional_def toy_libs_def)

lemma register_created:
  assumes "RegisterSchema L b = Inr (e, pw, nm)"
      and "\<not> (\<exists>u \<in> set (users d). user_email u = e)"
  shows "register L salt d b =
           (d\<lparr>user_seq := user_seq d + 1,
               users := users d @ [\<lparr>user_id = user_seq d, user_email = e,
                                    user_password = bcrypt_hash L salt pw, user_name = nm\<rparr>]\<rparr>,
            Response 201 (JObj [(''id'', JNum (user_seq d)), (''email'', JStr e)]))"
  using assms by (simp add: register_def user_create_def Let_def)

lemma register_conflict_iff:
  assumes "RegisterSchema L b = Inr (e, pw, nm)"
  shows "(\<exists>j. snd (register L salt d b) = Response 409 j)
           \<longleftrightarrow> isl (snd (user_create d e (bcrypt_hash L salt pw) nm))"
  using assms by (simp add: register_def user_create_def Let_def)

text \<open>
  C5. A valid registration whose e-mail some user row already has is answered with
  status 409 and \<^verbatim>\<open>{"error":"Email exists"}\<close>, and the table of users is left as it was.
  The handler makes no lookup of its own: the 409 is the answer to the store refusing
  the insert on the unique index.
\<close>

theorem register_duplicate_email_conflict:
  assumes "RegisterSchema L b = Inr (e, pw, nm)"
      and "\<exists>u \<in> set (users d). user_email u = e"
  shows "snd (register L salt d b) = Response 409 (JObj [(''error'', JStr ''Email exists'')])
       \<and> users (fst (register L salt d b)) = users d
       \<and> snd (user_create d e (bcrypt_hash L salt pw) nm) = Inl P2002"
  using assms by (simp add: register_def user_create_def error_body_def Let_def)

theorem register_duplicate_email_conflict_witness:
  "register toy_libs ''s1'' toy_db (registration ''b@x.com'' ''secret2'')
     = (toy_db_b, Response 201 (JObj [(''id'', JNum 2), (''email'', JStr ''b@x.com'')]))
   \<and> RegisterSchema toy_libs (registration ''b@x.com'' ''another-password'')
       = Inr (''b@x.com'', ''another-password'', None)
   \<and> (\<exists>u \<in> set (users toy_db_b). user_email u = ''b@x.com'')
   \<and> snd (register toy_libs ''s2'' toy_db_b (registration ''b@x.com'' ''another-password''))
       = Response 409 (JObj [(''error'', JStr ''Email exists'')])
   \<and> users (fst (register toy_libs ''s2'' toy_db_b (registration ''b@x.com'' ''another-password'')))
       = users toy_db_b"
proof -
  have v0: "RegisterSchema toy_libs (registration ''b@x.com'' ''secret2'')
              = Inr (''b@x.com'', ''secret2'', None)"
    by (simp add: toy_registration_valid)
  have n: "\<not> (\<exists>u \<in> set (users toy_db). user_email u = ''b@x.com'')"
    by (simp add: toy_db_def)
  have first: "register toy_libs ''s1'' toy_db (registration ''b@x.com'' ''secret2'')
     = (toy_db_b, Response 201 (JObj [(''id'', JNum 2), (''email'', JStr ''b@x.com'')]))"
    unfolding register_created [OF v0 n]
    by (simp add: toy_db_b_def toy_db_def toy_libs_def)
  have v: "RegisterSchema toy_libs (registration ''b@x.com'' ''another-password'')
             = Inr (''b@x.com'', ''another-password'', None)"
    by (simp add: toy_registration_valid)
  have x: "\<exists>u \<in> set (users toy_db_b). user_email u = ''b@x.com''"
    by (simp add: toy_db_b_def)
  from register_duplicate_email_conflict [OF v x, of "''s2''"] first v x
  show ?thesis by blast
qed

section \<open>Forgotten password\<close>

text \<open>
  C2. With a front-end URL configured, the answers of \<^verbatim>\<open>forgot-password\<close> for a registered
  and for an unregistered e-mail both have status 200 and a body with the single property
  \<^verbatim>\<open>message\<close>, but the messages differ, so the body tells the two cases apart.
\<close>

theorem forgot_password_reveals_registration:
  "forgot_password toy_libs (Some ''https://fe.example'') ''r1'' toy_db (email_only ''a@x.com'')
     = (toy_db\<lparr>passwordReset_seq := 3,
              passwordResets := passwordResets toy_db @
                 [\<lparr>pr_id = 2, pr_token = ''r1'', pr_userId = 1, pr_expiresAt = None,
                   pr_used = False\<rparr>]\<rparr>,
        Response 200 (JObj [(''message'', JStr ''Reset link generated'')]))
   \<and> forgot_password toy_libs (Some ''https://fe.example'') ''r1'' toy_db (email_only ''b@x.com'')
     = (toy_db,
        Response 200 (JObj [(''message'', JStr ''If the email exists, a reset link will be sent'')]))
   \<and> snd (forgot_password toy_libs (Some ''https://fe.example'') ''r1'' toy_db (email_only ''a@x.com''))
     \<noteq> snd (forgot_password toy_libs (Some ''https://fe.example'') ''r1'' toy_db (email_only ''b@x.com''))"
  by (simp add: forgot_password_def ForgotSchema_def email_only_def z_email_def toy_libs_def
      user_findUnique_email_def toy_db_def passwordReset_create_def buildResetLink_def
      message_body_def Let_def)

section \<open>The request gate\<close>

text \<open>
  C9. On a protected route, a request without an \<^verbatim>\<open>Authorization\<close> header, or with one
  that does not start with \<^verbatim>\<open>Bearer \<close>, is answered 401 \<^verbatim>\<open>{"error":"No token"}\<close>; one whose
  token fails verification is answered 401 \<^verbatim>\<open>{"error":"Invalid token"}\<close>; in both cases
  the answer and the store do not depend on the handler, which is not run. Otherwise the
  handler runs on the request with the verified claims attached as \<^verbatim>\<open>req.user\<close>.
\<close>

theorem auth_gate:
  "((req_authorization req = None \<or> (\<exists>h. req_authorization req = Some h \<and> \<not> prefix ''Bearer '' h))
      \<longrightarrow> protected (auth L S n) handler req d = (d, Response 401 (JObj [(''error'', JStr ''No token'')])))
   \<and> (\<forall>h e. req_authorization req = Some h \<and> prefix ''Bearer '' h \<and> verifyJwt L S n (drop 7 h) = Inl e
      \<longrightarrow> protected (auth L S n) handler req d = (d, Response 401 (JObj [(''error'', JStr ''Invalid token'')])))
   \<and> (\<forall>h claims. req_authorization req = Some h \<and> prefix ''Bearer '' h \<and> verifyJwt L S n (drop 7 h) = Inr claims
      \<longrightarrow> auth L S n req = Inr (req\<lparr>req_user := Some claims\<rparr>)
        \<and> protected (auth L S n) handler req d = handler (req\<lparr>req_user := Some claims\<rparr>) d)"
  by (auto simp: protected_def auth_def)

lemma toy_verify_ok: "verifyJwt toy_libs ''k1'' 2000 ''header.claims.signature'' = Inr toy_claims"
  by (simp add: verifyJwt_def jwt_verify_def toy_libs_def toy_claims_def)

lemma toy_verify_bad: "verifyJwt toy_libs ''k1'' 2000 ''garbage'' = Inl JsonWebTokenError"
  by (simp add: verifyJwt_def jwt_verify_def toy_libs_def)

theorem auth_gate_witness:
  "protected (auth toy_libs ''k1'' 2000) whoami (bearer_request None) toy_db
     = (toy_db, Response 401 (JObj [(''error'', JStr ''No token'')]))
   \<and> protected (auth toy_libs ''k1'' 2000) whoami (bearer_request (Some ''Basic abc'')) toy_db
     = (toy_db, Response 401 (JObj [(''error'', JStr ''No token'')]))
   \<and> protected (auth toy_libs ''k1'' 2000) whoami (bearer_request (Some ''Bearer garbage'')) toy_db
     = (toy_db, Response 401 (JObj [(''error'', JStr ''Invalid token'')]))
   \<and> protected (auth toy_libs ''k1'' 2000) whoami (bearer_request (Some ''Bearer header.claims.signature'')) toy_db
     = (toy_db, Response 200 toy_claims)"
proof -
  have a: "req_authorization (bearer_request None) = None"
    by (simp add: bearer_request_def)
  have b: "req_authorization (bearer_request (Some ''Basic abc'')) = Some ''Basic abc'' \<and> \<not> prefix ''Bearer '' ''Basic abc''"
    by (simp add: bearer_request_def)
  have c: "req_authorization (bearer_request (Some ''Bearer garbage'')) = Some ''Bearer garbage''
           \<and> prefix ''Bearer '' ''Bearer garbage''
           \<and> verifyJwt toy_libs ''k1'' 2000 (drop 7 ''Bearer garbage'') = Inl JsonWebTokenError"
    by (simp add: bearer_request_def toy_verify_bad)
  have d: "req_authorization (bearer_request (Some ''Bearer header.claims.signature'')) = Some ''Bearer header.claims.signature''
           \<and> prefix ''Bearer '' ''Bearer header.claims.signature''
           \<and> verifyJwt toy_libs ''k1'' 2000 (drop 7 ''Bearer header.claims.signature'') = Inr toy_claims"
    by (simp add: bearer_request_def toy_verify_ok)
  have 1: "protected (auth toy_libs ''k1'' 2000) whoami (bearer_request None) toy_db
     = (toy_db, Response 401 (JObj [(''error'', JStr ''No token'')]))"
    using auth_gate [of "bearer_request None" toy_libs "''k1''" 2000 whoami toy_db] a by blast
  have 2: "protected (auth toy_libs ''k1'' 2000) whoami (bearer_request (Some ''Basic abc'')) toy_db
     = (toy_db, Response 401 (JObj [(''error'', JStr ''No token'')]))"
    using auth_gate [of "bearer_request (Some ''Basic abc'')" toy_libs "''k1''" 2000 whoami toy_db] b by blast
  have 3: "protected (auth toy_libs ''k1'' 2000) whoami (bearer_request (Some ''Bearer garbage'')) toy_db
     = (toy_db, Response 401 (JObj [(''error'', JStr ''Invalid token'')]))"
    using auth_gate [of "bearer_request (Some ''Bearer garbage'')" toy_libs "''k1''" 2000 whoami toy_db] c by blast
  have "protected (auth toy_libs ''k1'' 2000) whoami (bearer_request (Some ''Bearer header.claims.signature'')) toy_db
     = whoami (bearer_request (Some ''Bearer header.claims.signature'')\<lparr>req_user := Some toy_claims\<rparr>) toy_db"
    using auth_gate [of "bearer_request (Some ''Bearer header.claims.signature'')" toy_libs "''k1''" 2000 whoami toy_db] d by blast
  then have 4: "protected (auth toy_libs ''k1'' 2000) whoami (bearer_request (Some ''Bearer header.claims.signature'')) toy_db
     = (toy_db, Response 200 toy_claims)"
    by (simp add: whoami_def bearer_request_def)
  from 1 2 3 4 show ?thesis by blast
qed

section \<open>Process start\<close>

lemma startup_with_secret:
  "JWT_SECRET env = Some s \<Longrightarrow> s \<noteq> [] \<Longrightarrow>
     startup env = Inr \<lparr>srv_SECRET = s, srv_FE = load_FE env\<rparr>"
  by (simp add: startup_def load_jwt_def)

text \<open>
  C8. When \<^verbatim>\<open>JWT_SECRET\<close> is unset or empty, loading the modules throws
  \<^verbatim>\<open>JWT_SECRET missing\<close>: start-up fails and the process answers no request, whatever the
  handlers and the requests are.
\<close>

theorem startup_refuses_missing_secret:
  assumes "JWT_SECRET env = None \<or> JWT_SECRET env = Some []"
  shows "startup env = Inl ''JWT_SECRET missing''
       \<and> serve env h rqs d = Inl ''JWT_SECRET missing''"
  using assms by (auto simp: startup_def serve_def load_jwt_def)

theorem startup_refuses_missing_secret_witness:
  "serve \<lparr>JWT_SECRET = None, FRONTEND_URL = None\<rparr> (handle toy_libs)
         [(\<lparr>amb_now = 1000, amb_salt = ''s1'', amb_rnd = ''r1''\<rparr>, PostLogin (credentials ''a@x.com'' ''secret1''))] toy_db
     = Inl ''JWT_SECRET missing''
   \<and> serve \<lparr>JWT_SECRET = Some '''', FRONTEND_URL = None\<rparr> (handle toy_libs)
         [(\<lparr>amb_now = 1000, amb_salt = ''s1'', amb_rnd = ''r1''\<rparr>, PostLogin (credentials ''a@x.com'' ''secret1''))] toy_db
     = Inl ''JWT_SECRET missing''"
proof -
  have a: "JWT_SECRET \<lparr>JWT_SECRET = None, FRONTEND_URL = None\<rparr> = None
           \<or> JWT_SECRET \<lparr>JWT_SECRET = None, FRONTEND_URL = None\<rparr> = Some []"
    by simp
  have b: "JWT_SECRET \<lparr>JWT_SECRET = Some '''', FRONTEND_URL = None\<rparr> = None
           \<or> JWT_SECRET \<lparr>JWT_SECRET = Some '''', FRONTEND_URL = None\<rparr> = Some []"
    by simp
  let ?rqs = "[(\<lparr>amb_now = 1000, amb_salt = ''s1'', amb_rnd = ''r1''\<rparr>,
                PostLogin (credentials ''a@x.com'' ''secret1''))]"
  from startup_refuses_missing_secret [OF a, of "handle toy_libs" ?rqs toy_db]
       startup_refuses_missing_secret [OF b, of "handle toy_libs" ?rqs toy_db]
  show ?thesis by blast
qed

section \<open>Single use of a reset token\<close>




















section \<open>Session credentials\<close>












section \<open>The two writes of a password reset\<close>

text \<open>The handler is its steps run one after the other.\<close>

lemma run_one_step:
  "run_schedule L [0] (d, [(salt, pc)]) = (fst (reset_step L salt (d, pc)), [(salt, snd (reset_step L salt (d, pc)))])"
  by (simp split: prod.splits)

lemma run_schedule_Cons0:
  "run_schedule L (0 # is) (d, [(salt, pc)]) =
     run_schedule L is (fst (reset_step L salt (d, pc)), [(salt, snd (reset_step L salt (d, pc)))])"
  by (simp split: prod.splits)

lemma reset_steps_complete:
  "run_schedule L [0, 0, 0] (d, [(salt, reset_start L b)]) =
     (fst (reset_password L salt d b), [(salt, Finished (snd (reset_password L salt d b)))])"
proof (cases "ResetSchema L b")
  case (Inl err)
  then show ?thesis
    by (simp add: run_schedule_Cons0 reset_start_def reset_password_def)
next
  case (Inr tp)
  obtain t p where tp: "tp = (t, p)" by (cases tp)
  show ?thesis
  proof (cases "passwordReset_findUnique_token d t = None \<or> pr_used (the (passwordReset_findUnique_token d t))")
    case True
    with Inr tp show ?thesis
      by (simp add: run_schedule_Cons0 reset_start_def reset_password_def)
  next
    case False
    with Inr tp show ?thesis
      by (simp add: run_schedule_Cons0 reset_start_def reset_password_def Let_def
          split: sum.splits)
  qed
qed


lemma reset_steps_between:
  assumes "ResetSchema L b = Inr (t, p)"
      and "passwordReset_findUnique_token d t = Some r"
      and "\<not> pr_used r"
      and "\<exists>u \<in> set (users d). user_id u = pr_userId r"
  shows "run_schedule L [0, 0] (d, [(salt, reset_start L b)]) =
           (set_password (pr_userId r) (bcrypt_hash L salt p) d, [(salt, AwaitMarkUsed r)])"
  using assms
  by (simp add: run_schedule_Cons0 reset_start_def user_update_password_def)

text \<open>
  C1. \<^verbatim>\<open>reset-password\<close> writes the new hash and marks the token in two store calls, in
  that order and not as one unit. Run to its end on a token that is found and unused, the
  handler applies both. After the first call and before the second the store holds the
  new hash while the token row is still unused, and a reset request with that token
  served on that state is accepted.
\<close>

theorem reset_two_writes_in_order:
  assumes "ResetSchema L b = Inr (t, p)"
      and "passwordReset_findUnique_token d t = Some r"
      and "\<not> pr_used r"
      and "\<exists>u \<in> set (users d). user_id u = pr_userId r"
  shows "reset_password L salt d b =
           (mark_used (pr_id r) (set_password (pr_userId r) (bcrypt_hash L salt p) d),
            Response 200 (JObj [(''message'', JStr ''Password updated successfully (testing mode)'')]))
       \<and> run_schedule L [0, 0, 0] (d, [(salt, reset_start L b)]) =
           (mark_used (pr_id r) (set_password (pr_userId r) (bcrypt_hash L salt p) d),
            [(salt, Finished (Response 200
                (JObj [(''message'', JStr ''Password updated successfully (testing mode)'')])))])
       \<and> run_schedule L [0, 0] (d, [(salt, reset_start L b)]) =
           (set_password (pr_userId r) (bcrypt_hash L salt p) d, [(salt, AwaitMarkUsed r)])
       \<and> passwordReset_findUnique_token (set_password (pr_userId r) (bcrypt_hash L salt p) d) t
           = Some r
       \<and> (\<forall>u \<in> set (users (set_password (pr_userId r) (bcrypt_hash L salt p) d)).
             user_id u = pr_userId r \<longrightarrow> user_password u = bcrypt_hash L salt p)
       \<and> (\<forall>salt' b' p'. ResetSchema L b' = Inr (t, p') \<longrightarrow>
             snd (reset_password L salt' (set_password (pr_userId r) (bcrypt_hash L salt p) d) b')
               = Response 200
                   (JObj [(''message'', JStr ''Password updated successfully (testing mode)'')]))"
proof -
  let ?mid = "set_password (pr_userId r) (bcrypt_hash L salt p) d"
  have acc: "reset_password L salt d b =
           (mark_used (pr_id r) ?mid,
            Response 200 (JObj [(''message'', JStr ''Password updated successfully (testing mode)'')]))"
    by (rule reset_password_accepts [OF assms])
  have full: "run_schedule L [0, 0, 0] (d, [(salt, reset_start L b)]) =
           (mark_used (pr_id r) ?mid,
            [(salt, Finished (Response 200
                (JObj [(''message'', JStr ''Password updated successfully (testing mode)'')])))])"
    by (simp only: reset_steps_complete acc fst_conv snd_conv)
  have mid: "run_schedule L [0, 0] (d, [(salt, reset_start L b)]) = (?mid, [(salt, AwaitMarkUsed r)])"
    by (rule reset_steps_between [OF assms])
  have tok: "passwordReset_findUnique_token ?mid t = Some r"
    using assms(2) by (simp add: find_token_set_password)
  have pw: "\<forall>u \<in> set (users ?mid). user_id u = pr_userId r \<longrightarrow> user_password u = bcrypt_hash L salt p"
    by (simp add: set_password_sets)
  have fk: "\<exists>u \<in> set (users ?mid). user_id u = pr_userId r"
    using assms(4) by (simp add: set_password_keeps_ids)
  have again: "snd (reset_password L salt' ?mid b')
               = Response 200
                   (JObj [(''message'', JStr ''Password updated successfully (testing mode)'')])"
    if "ResetSchema L b' = Inr (t, p')" for salt' b' p'
    using reset_password_accepts [OF that tok assms(3) fk, of salt'] by simp
  from acc full mid tok pw again show ?thesis by blast
qed

theorem reset_two_writes_in_order_witness:
  "ResetSchema toy_libs (reset_request ''0123456789abcdef'' ''first-pass'')
     = Inr (''0123456789abcdef'', ''first-pass'')
   \<and> passwordReset_findUnique_token toy_db ''0123456789abcdef'' = Some toy_row
   \<and> \<not> pr_used toy_row
   \<and> (\<exists>u \<in> set (users toy_db). user_id u = pr_userId toy_row)
   \<and> run_schedule toy_libs [0, 0]
         (toy_db, [(''s1'', reset_start toy_libs (reset_request ''0123456789abcdef'' ''first-pass''))])
       = (set_password 1 ''s1$first-pass'' toy_db, [(''s1'', AwaitMarkUsed toy_row)])
   \<and> snd (reset_password toy_libs ''s2'' (set_password 1 ''s1$first-pass'' toy_db)
            (reset_request ''0123456789abcdef'' ''second-pass''))
       = Response 200 (JObj [(''message'', JStr ''Password updated successfully (testing mode)'')])"
proof -
  have v: "ResetSchema toy_libs (reset_request ''0123456789abcdef'' ''first-pass'')
             = Inr (''0123456789abcdef'', ''first-pass'')"
    by (simp add: reset_request_valid)
  have v': "ResetSchema toy_libs (reset_request ''0123456789abcdef'' ''second-pass'')
             = Inr (''0123456789abcdef'', ''second-pass'')"
    by (simp add: reset_request_valid)
  have f: "passwordReset_findUnique_token toy_db ''0123456789abcdef'' = Some toy_row"
    by (simp add: passwordReset_findUnique_token_def toy_db_def toy_row_def)
  have u: "\<not> pr_used toy_row"
    by (simp add: toy_row_def)
  have k: "\<exists>u \<in> set (users toy_db). user_id u = pr_userId toy_row"
    by (simp add: toy_db_def toy_row_def)
  have e: "pr_userId toy_row = 1" "bcrypt_hash toy_libs ''s1'' ''first-pass'' = ''s1$first-pass''"
    by (simp_all add: toy_row_def toy_libs_def)
  from reset_two_writes_in_order [OF v f u k, of "''s1''"] v' v f u k
  show ?thesis unfolding e by blast
qed

text \<open>
  On the small store: once the first request has written the hash and before it marks
  the token, the row is unused and a second reset with the same token is answered 200;
  interleaved as first, first, second, second, second, first, both requests are answered
  200 and the stored hash is the second request's.
\<close>

theorem reset_not_atomic_counterexample:
  "run_schedule toy_libs [0, 0]
       (toy_db, [(''s1'', reset_start toy_libs (reset_request ''0123456789abcdef'' ''first-pass''))])
     = (set_password 1 ''s1$first-pass'' toy_db, [(''s1'', AwaitMarkUsed toy_row)])
   \<and> map user_password (users (set_password 1 ''s1$first-pass'' toy_db)) = [''s1$first-pass'']
   \<and> passwordReset_findUnique_token (set_password 1 ''s1$first-pass'' toy_db) ''0123456789abcdef''
       = Some toy_row
   \<and> \<not> pr_used toy_row
   \<and> reset_password toy_libs ''s2'' (set_password 1 ''s1$first-pass'' toy_db)
         (reset_request ''0123456789abcdef'' ''second-pass'')
       = (mark_used 1 (set_password 1 ''s2$second-pass'' toy_db),
          Response 200 (JObj [(''message'', JStr ''Password updated successfully (testing mode)'')]))
   \<and> run_schedule toy_libs [0, 0, 1, 1, 1, 0]
       (toy_db, [(''s1'', reset_start toy_libs (reset_request ''0123456789abcdef'' ''first-pass'')),
                 (''s2'', reset_start toy_libs (reset_request ''0123456789abcdef'' ''second-pass''))])
     = (mark_used 1 (set_password 1 ''s2$second-pass'' toy_db),
        [(''s1'', Finished (Response 200
             (JObj [(''message'', JStr ''Password updated successfully (testing mode)'')]))),
         (''s2'', Finished (Response 200
             (JObj [(''message'', JStr ''Password updated successfully (testing mode)'')])))])"
  by (simp add: reset_start_def reset_request_valid reset_password_def
      passwordReset_findUnique_token_def user_update_password_def passwordReset_update_used_def
      set_password_def mark_used_def toy_db_def toy_row_def toy_libs_def message_body_def Let_def)

end
